theory Spec2Isabelle
  imports Main "HOL-Library.Word"
begin

text \<open>
  A model of \<^verbatim>\<open>azurerm/internal/services/compute/virtual_machine.go\<close>: the parser and
  validator of virtual machine identifiers, the mapping of network interface IDs, and the
  expansion and flattening of the OS disk block. Line numbers are those of that file.
\<close>

section \<open>Dynamically typed values of the attribute bag\<close>

text \<open>
  The configuration framework hands the mapping functions values of Go type
  \<^verbatim>\<open>interface{}\<close>: strings, ints, bools, \<^verbatim>\<open>[]interface{}\<close> and
  \<^verbatim>\<open>map[string]interface{}\<close>. A Go map has neither order nor duplicate keys, so it is a
  partial function; a key that is absent reads as the nil interface, like a stored nil.
  Go's \<^verbatim>\<open>int\<close> is modelled as \<open>int\<close>; the one narrowing conversion of the
  file, \<^verbatim>\<open>int32(osDiskSize)\<close>, is the wrap-around \<open>word_of_int\<close> into \<open>32 word\<close>.
\<close>

datatype gval =
    GNil
  | GString string
  | GInt int
  | GBool bool
  | GList "gval list"
  | GMap "string \<Rightarrow> gval option"

text \<open>
  A run-time panic of the Go program: indexing past the end of a slice, or a type assertion
  \<^verbatim>\<open>x.(T)\<close> (the form without \<^verbatim>\<open>ok\<close>) on a value whose dynamic type is not
  \<^verbatim>\<open>T\<close>.
\<close>

datatype panic = IndexOutOfRange | InterfaceConversion

definition bind_panic :: "panic + 'a \<Rightarrow> ('a \<Rightarrow> panic + 'b) \<Rightarrow> panic + 'b" where
  "bind_panic m f = (case m of Inl p \<Rightarrow> Inl p | Inr x \<Rightarrow> f x)"

text \<open>\<^verbatim>\<open>input[0]\<close>\<close>

fun index0 :: "gval list \<Rightarrow> panic + gval" where
  "index0 [] = Inl IndexOutOfRange"
| "index0 (v # vs) = Inr v"

text \<open>\<^verbatim>\<open>v.(string)\<close>, \<^verbatim>\<open>v.(int)\<close>, \<^verbatim>\<open>v.(bool)\<close>,
  \<^verbatim>\<open>v.([]interface{})\<close> and \<^verbatim>\<open>v.(map[string]interface{})\<close>\<close>

fun assert_string :: "gval \<Rightarrow> panic + string" where
  "assert_string (GString s) = Inr s"
| "assert_string v = Inl InterfaceConversion"

fun assert_int :: "gval \<Rightarrow> panic + int" where
  "assert_int (GInt i) = Inr i"
| "assert_int v = Inl InterfaceConversion"

fun assert_bool :: "gval \<Rightarrow> panic + bool" where
  "assert_bool (GBool b) = Inr b"
| "assert_bool v = Inl InterfaceConversion"

fun assert_list :: "gval \<Rightarrow> panic + gval list" where
  "assert_list (GList vs) = Inr vs"
| "assert_list v = Inl InterfaceConversion"

fun assert_map :: "gval \<Rightarrow> panic + (string \<Rightarrow> gval option)" where
  "assert_map (GMap m) = Inr m"
| "assert_map v = Inl InterfaceConversion"

text \<open>\<^verbatim>\<open>raw[k]\<close>: the stored value, or the nil interface when the key is absent.\<close>

definition map_index :: "(string \<Rightarrow> gval option) \<Rightarrow> string \<Rightarrow> gval" where
  "map_index raw k = (case raw k of None \<Rightarrow> GNil | Some v \<Rightarrow> v)"

section \<open>Resource identifiers\<close>

text \<open>
  The error values of the file. Go builds them with \<^verbatim>\<open>fmt.Errorf\<close>; the model keeps
  the cause and the arguments instead of the formatted text. The first three are raised by the
  helper package, the last three by this file (lines 21, 42 and 47).
\<close>

datatype error =
    MalformedPath string
  | MissingSegment string
  | EmptySegment string
  | UnableToParseVirtualMachineID string error
  | ExpectedString string
  | CanNotParseAsResourceID string error

record ResourceID =
  ResourceGroup :: string
  Path :: "(string \<times> string) list"

record VirtualMachineID =
  ResourceGroup :: string
  Name :: string

text \<open>Splitting a string at every occurrence of a separator, as \<^verbatim>\<open>strings.Split\<close>
  does: \<open>n\<close> separators give \<open>n + 1\<close> pieces, some of them possibly empty.\<close>

fun split_on :: "char \<Rightarrow> string \<Rightarrow> string list" where
  "split_on c [] = [[]]"
| "split_on c (x # xs) =
     (if x = c then [] # split_on c xs
      else (case split_on c xs of
              [] \<Rightarrow> [[x]]
            | w # ws \<Rightarrow> (x # w) # ws))"

text \<open>
  Modelled from the spec: the package \<^verbatim>\<open>azurerm/helpers/azure\<close>, with
  \<^verbatim>\<open>ParseAzureResourceID\<close>, \<^verbatim>\<open>PopSegment\<close> and \<^verbatim>\<open>ValidateNoEmptySegments\<close>, is
  not part of the excerpt. The spec gives the identifier format
  \<^verbatim>\<open>/.../resourceGroups/<rg>/.../virtualMachines/<name>/...\<close>, a "slash-delimited path
  string" that the parser "splits into named segments". The path segments of an identifier are
  the pieces between the slashes, after the leading one.
\<close>

definition path_segments :: "string \<Rightarrow> string list" where
  "path_segments input =
     split_on (CHR ''/'')
       (case input of
          [] \<Rightarrow> []
        | c # rest \<Rightarrow> if c = CHR ''/'' then rest else input)"

text \<open>
  Modelled from the spec: named segments are the pieces taken in pairs, a key followed by the
  segment stored under it (\<^verbatim>\<open>resourceGroups/<rg>\<close>, \<^verbatim>\<open>virtualMachines/<name>\<close>). A path
  with a key that has no segment after it cannot be split into named segments: it is the
  "malformed path" of the spec's error causes.
\<close>

fun named_segments :: "string list \<Rightarrow> (string \<times> string) list option" where
  "named_segments [] = Some []"
| "named_segments [k] = None"
| "named_segments (k # v # rest) = map_option (Cons (k, v)) (named_segments rest)"

text \<open>
  Modelled from the spec: \<^verbatim>\<open>azure.ParseAzureResourceID\<close> "splits a resource path into
  named segments"; the identifier is "decomposed into a resource-group name and a resource
  name", the former read from the segment under \<^verbatim>\<open>resourceGroups\<close>.
\<close>

definition ParseAzureResourceID :: "string \<Rightarrow> error + ResourceID" where
  "ParseAzureResourceID input =
     (case named_segments (path_segments input) of
        None \<Rightarrow> Inl (MalformedPath input)
      | Some path \<Rightarrow>
          Inr \<lparr>ResourceID.ResourceGroup =
                 (case map_of path ''resourceGroups'' of None \<Rightarrow> [] | Some rg \<Rightarrow> rg),
               Path = path\<rparr>)"

text \<open>
  Modelled from the spec: \<^verbatim>\<open>PopSegment\<close> "extracts one required segment" and fails when
  "the required segment is missing". The method has a pointer receiver; the model returns the
  identifier without the extracted segment next to the segment's value.
\<close>

definition PopSegment :: "ResourceID \<Rightarrow> string \<Rightarrow> error + (string \<times> ResourceID)" where
  "PopSegment rid name =
     (case map_of (Path rid) name of
        None \<Rightarrow> Inl (MissingSegment name)
      | Some val \<Rightarrow> Inr (val, rid\<lparr>Path := filter (\<lambda>kv. fst kv \<noteq> name) (Path rid)\<rparr>))"

text \<open>
  Modelled from the spec: "an identifier path containing an empty segment must fail
  \<^verbatim>\<open>ValidateNoEmptySegments\<close>"; the parser "rejects the input if any segment is empty". The
  method is given the identifier string it was parsed from, and the model checks that string's
  segments. A nil Go error is \<open>None\<close>.
\<close>

definition has_empty_segment :: "string \<Rightarrow> bool" where
  "has_empty_segment sourceId = ([] \<in> set (path_segments sourceId))"

definition ValidateNoEmptySegments :: "ResourceID \<Rightarrow> string \<Rightarrow> error option" where
  "ValidateNoEmptySegments rid sourceId =
     (if has_empty_segment sourceId then Some (EmptySegment sourceId) else None)"

text \<open>\<^verbatim>\<open>ParseVirtualMachineID\<close> (lines 18 to 37), from the source.\<close>

definition ParseVirtualMachineID :: "string \<Rightarrow> error + VirtualMachineID" where
  "ParseVirtualMachineID input =
     (case ParseAzureResourceID input of
        Inl err \<Rightarrow> Inl (UnableToParseVirtualMachineID input err)
      | Inr rid \<Rightarrow>
          (case PopSegment rid ''virtualMachines'' of
             Inl err \<Rightarrow> Inl err
           | Inr (name, rid') \<Rightarrow>
               (case ValidateNoEmptySegments rid' input of
                  Some err \<Rightarrow> Inl err
                | None \<Rightarrow> Inr \<lparr>ResourceGroup = ResourceID.ResourceGroup rid, Name = name\<rparr>)))"

text \<open>
  \<^verbatim>\<open>ValidateVirtualMachineID\<close> (lines 39 to 52). Both named results start as nil slices;
  \<^verbatim>\<open>append\<close> to a nil slice gives the one-element slice.
\<close>

definition ValidateVirtualMachineID :: "gval \<Rightarrow> string \<Rightarrow> string list \<times> error list" where
  "ValidateVirtualMachineID i k =
     (let warnings = []; errors = [] in
      case i of
        GString v \<Rightarrow>
          (case ParseVirtualMachineID v of
             Inl err \<Rightarrow> (warnings, errors @ [CanNotParseAsResourceID k err])
           | Inr vm \<Rightarrow> (warnings, errors))
      | _ \<Rightarrow> (warnings, errors @ [ExpectedString k]))"

section \<open>Network interface references\<close>

record NetworkInterfaceReference =
  ID :: "string option"

text \<open>The loops of \<^verbatim>\<open>expandVirtualMachineNetworkInterfaceIDs\<close> (lines 54 to 64) and
  \<^verbatim>\<open>flattenVirtualMachineNetworkInterfaceIDs\<close> (lines 66 to 82), each with the slice it
  appends to; \<^verbatim>\<open>v.(string)\<close> panics on an element that is not a string.\<close>

fun expand_ids_loop ::
  "gval list \<Rightarrow> NetworkInterfaceReference list \<Rightarrow> panic + NetworkInterfaceReference list" where
  "expand_ids_loop [] output = Inr output"
| "expand_ids_loop (v # vs) output =
     bind_panic (assert_string v) (\<lambda>s. expand_ids_loop vs (output @ [\<lparr>ID = Some s\<rparr>]))"

definition expandVirtualMachineNetworkInterfaceIDs ::
  "gval list \<Rightarrow> panic + NetworkInterfaceReference list" where
  "expandVirtualMachineNetworkInterfaceIDs input = expand_ids_loop input []"

fun flatten_ids_loop :: "NetworkInterfaceReference list \<Rightarrow> gval list \<Rightarrow> gval list" where
  "flatten_ids_loop [] output = output"
| "flatten_ids_loop (v # vs) output =
     (case ID v of
        None \<Rightarrow> flatten_ids_loop vs output
      | Some i \<Rightarrow> flatten_ids_loop vs (output @ [GString i]))"

definition flattenVirtualMachineNetworkInterfaceIDs ::
  "NetworkInterfaceReference list option \<Rightarrow> gval list" where
  "flattenVirtualMachineNetworkInterfaceIDs input =
     (case input of
        None \<Rightarrow> []
      | Some refs \<Rightarrow> flatten_ids_loop refs [])"

section \<open>The typed payload\<close>

text \<open>
  The structs of the vendor SDK, with the fields the mapping functions read or write. A Go pointer
  field is an \<open>option\<close>; the string-based enumeration types (\<^verbatim>\<open>CachingTypes\<close>,
  \<^verbatim>\<open>StorageAccountTypes\<close>, \<^verbatim>\<open>DiffDiskOptions\<close>, \<^verbatim>\<open>OperatingSystemTypes\<close>,
  \<^verbatim>\<open>DiskCreateOptionTypes\<close>) are strings.
\<close>

type_synonym OperatingSystemTypes = string

record DiffDiskSettings =
  Option :: string

record DiskEncryptionSetParameters =
  ID :: "string option"

record ManagedDiskParameters =
  StorageAccountType :: string
  DiskEncryptionSet :: "DiskEncryptionSetParameters option"

record OSDisk =
  OsType :: OperatingSystemTypes
  Name :: "string option"
  Caching :: string
  WriteAcceleratorEnabled :: "bool option"
  DiffDiskSettings :: "DiffDiskSettings option"
  CreateOption :: string
  DiskSizeGB :: "32 word option"
  ManagedDisk :: "ManagedDiskParameters option"

definition DiskCreateOptionTypesFromImage :: string where
  "DiskCreateOptionTypesFromImage = ''FromImage''"

section \<open>ExpandVirtualMachineOSDisk and FlattenVirtualMachineOSDisk\<close>

text \<open>
  \<^verbatim>\<open>ExpandVirtualMachineOSDisk\<close> (lines 166 to 203). The composite literal is evaluated
  first, field by field, then the four conditional assignments in their order; each type
  assertion is a point where the function may panic. The nested block of
  \<^verbatim>\<open>diff_disk_settings\<close> (lines 185 to 190) is nil for an empty list, else built from the
  first element.
\<close>

definition expand_diff_disk_settings :: "gval list \<Rightarrow> panic + DiffDiskSettings option" where
  "expand_diff_disk_settings diffDiskSettingsRaw =
     (if length diffDiskSettingsRaw > 0 then
        bind_panic (index0 diffDiskSettingsRaw) (\<lambda>v.
        bind_panic (assert_map v) (\<lambda>diffDiskRaw.
        bind_panic (assert_string (map_index diffDiskRaw ''option'')) (\<lambda>opt.
        Inr (Some \<lparr>Option = opt\<rparr>))))
      else Inr None)"

definition ExpandVirtualMachineOSDisk :: "gval list \<Rightarrow> OperatingSystemTypes \<Rightarrow> panic + OSDisk" where
  "ExpandVirtualMachineOSDisk input osType =
     bind_panic (index0 input) (\<lambda>v.
     bind_panic (assert_map v) (\<lambda>raw.
     bind_panic (assert_string (map_index raw ''caching'')) (\<lambda>caching.
     bind_panic (assert_string (map_index raw ''storage_account_type'')) (\<lambda>storageAccountType.
     bind_panic (assert_bool (map_index raw ''write_accelerator_enabled'')) (\<lambda>writeAccelerator.
     bind_panic (assert_int (map_index raw ''disk_size_gb'')) (\<lambda>osDiskSize.
     bind_panic (assert_list (map_index raw ''diff_disk_settings'')) (\<lambda>diffDiskSettingsRaw.
     bind_panic (expand_diff_disk_settings diffDiskSettingsRaw) (\<lambda>diffDisk.
     bind_panic (assert_string (map_index raw ''disk_encryption_set_id'')) (\<lambda>id.
     bind_panic (assert_string (map_index raw ''name'')) (\<lambda>name.
     Inr \<lparr>OsType = osType,
          Name = (if name \<noteq> [] then Some name else None),
          Caching = caching,
          WriteAcceleratorEnabled = Some writeAccelerator,
          DiffDiskSettings = diffDisk,
          CreateOption = DiskCreateOptionTypesFromImage,
          DiskSizeGB = (if osDiskSize > 0 then Some (word_of_int osDiskSize) else None),
          ManagedDisk = Some \<lparr>StorageAccountType = storageAccountType,
            DiskEncryptionSet = (if id \<noteq> [] then Some \<lparr>ID = Some id\<rparr> else None)\<rparr>\<rparr>))))))))))"

text \<open>\<^verbatim>\<open>FlattenVirtualMachineOSDisk\<close> (lines 205 to 252); \<^verbatim>\<open>int(*input.DiskSizeGB)\<close>
  reads the 32-bit value as signed.\<close>

definition FlattenVirtualMachineOSDisk :: "OSDisk option \<Rightarrow> gval list" where
  "FlattenVirtualMachineOSDisk input =
     (case input of
        None \<Rightarrow> []
      | Some disk \<Rightarrow>
          (let diffDiskSettings =
                 (case DiffDiskSettings disk of
                    None \<Rightarrow> []
                  | Some dds \<Rightarrow> [GMap [''option'' \<mapsto> GString (Option dds)]]);
               diskSizeGb =
                 (case DiskSizeGB disk of
                    None \<Rightarrow> 0
                  | Some sz \<Rightarrow> if sz \<noteq> 0 then sint sz else 0);
               name = (case Name disk of None \<Rightarrow> [] | Some n \<Rightarrow> n);
               diskEncryptionSetId =
                 (case ManagedDisk disk of
                    None \<Rightarrow> []
                  | Some md \<Rightarrow>
                      (case DiskEncryptionSet md of
                         None \<Rightarrow> []
                       | Some des \<Rightarrow> (case ID des of None \<Rightarrow> [] | Some i \<Rightarrow> i)));
               storageAccountType =
                 (case ManagedDisk disk of None \<Rightarrow> [] | Some md \<Rightarrow> StorageAccountType md);
               writeAcceleratorEnabled =
                 (case WriteAcceleratorEnabled disk of None \<Rightarrow> False | Some b \<Rightarrow> b)
           in [GMap [''caching'' \<mapsto> GString (Caching disk),
                     ''disk_size_gb'' \<mapsto> GInt diskSizeGb,
                     ''diff_disk_settings'' \<mapsto> GList diffDiskSettings,
                     ''disk_encryption_set_id'' \<mapsto> GString diskEncryptionSetId,
                     ''name'' \<mapsto> GString name,
                     ''storage_account_type'' \<mapsto> GString storageAccountType,
                     ''write_accelerator_enabled'' \<mapsto> GBool writeAcceleratorEnabled]]))"

section \<open>What the schema admits\<close>

text \<open>
  The type assertions of \<^verbatim>\<open>ExpandVirtualMachineOSDisk\<close> need every field of the block
  to hold a value of the type the schema of \<^verbatim>\<open>VirtualMachineOSDiskSchema\<close> declares for
  it: \<^verbatim>\<open>TypeString\<close>, \<^verbatim>\<open>TypeInt\<close>, \<^verbatim>\<open>TypeBool\<close>, or \<^verbatim>\<open>TypeList\<close> of a nested
  block.
\<close>

fun is_string :: "gval \<Rightarrow> bool" where
  "is_string (GString s) = True"
| "is_string v = False"

fun is_int :: "gval \<Rightarrow> bool" where
  "is_int (GInt n) = True"
| "is_int v = False"

fun is_bool :: "gval \<Rightarrow> bool" where
  "is_bool (GBool b) = True"
| "is_bool v = False"

text \<open>Of a \<^verbatim>\<open>diff_disk_settings\<close> list only the first element is read.\<close>

fun diff_disk_settings_well_typed :: "gval \<Rightarrow> bool" where
  "diff_disk_settings_well_typed (GList []) = True"
| "diff_disk_settings_well_typed (GList (GMap m # vs)) = is_string (map_index m ''option'')"
| "diff_disk_settings_well_typed v = False"

fun os_disk_bag_well_typed :: "gval list \<Rightarrow> bool" where
  "os_disk_bag_well_typed (GMap raw # rest) =
     (is_string (map_index raw ''caching'') \<and>
      is_string (map_index raw ''storage_account_type'') \<and>
      is_bool (map_index raw ''write_accelerator_enabled'') \<and>
      is_int (map_index raw ''disk_size_gb'') \<and>
      diff_disk_settings_well_typed (map_index raw ''diff_disk_settings'') \<and>
      is_string (map_index raw ''disk_encryption_set_id'') \<and>
      is_string (map_index raw ''name''))"
| "os_disk_bag_well_typed vs = False"

text \<open>
  A valid block, after \<^verbatim>\<open>VirtualMachineOSDiskSchema\<close> (lines 84 to 164): the list is
  required and has \<^verbatim>\<open>MaxItems: 1\<close>, so it has exactly one element; \<^verbatim>\<open>disk_size_gb\<close>
  passes \<^verbatim>\<open>validation.IntBetween(0, 1023)\<close>; \<^verbatim>\<open>diff_disk_settings\<close> has
  \<^verbatim>\<open>MaxItems: 1\<close> and its nested block the one field \<^verbatim>\<open>option\<close>. The enumerations
  that the schema puts on the string fields are left out: a block that passes them is valid in
  this sense too.
\<close>

definition os_disk_schema_keys :: "string set" where
  "os_disk_schema_keys =
     {''caching'', ''storage_account_type'', ''diff_disk_settings'', ''disk_encryption_set_id'',
      ''disk_size_gb'', ''name'', ''write_accelerator_enabled''}"

fun int_between :: "int \<Rightarrow> int \<Rightarrow> gval \<Rightarrow> bool" where
  "int_between lo hi (GInt n) = (lo \<le> n \<and> n \<le> hi)"
| "int_between lo hi v = False"

fun diff_disk_settings_valid :: "gval \<Rightarrow> bool" where
  "diff_disk_settings_valid (GList []) = True"
| "diff_disk_settings_valid (GList [GMap m]) =
     (dom m = {''option''} \<and> is_string (map_index m ''option''))"
| "diff_disk_settings_valid v = False"

fun os_disk_bag_valid :: "gval list \<Rightarrow> bool" where
  "os_disk_bag_valid [GMap raw] =
     (is_string (map_index raw ''caching'') \<and>
      is_string (map_index raw ''storage_account_type'') \<and>
      is_bool (map_index raw ''write_accelerator_enabled'') \<and>
      int_between 0 1023 (map_index raw ''disk_size_gb'') \<and>
      diff_disk_settings_valid (map_index raw ''diff_disk_settings'') \<and>
      is_string (map_index raw ''disk_encryption_set_id'') \<and>
      is_string (map_index raw ''name''))"
| "os_disk_bag_valid vs = False"

text \<open>The one element of a flattened block, and a field of it.\<close>

fun flattened_field :: "gval list \<Rightarrow> string \<Rightarrow> gval option" where
  "flattened_field [GMap m] k = m k"
| "flattened_field vs k = None"

section \<open>Auxiliary facts\<close>

lemma bind_panic_Inr: "(bind_panic m f = Inr y) \<longleftrightarrow> (\<exists>x. m = Inr x \<and> f x = Inr y)"
  by (cases m) (auto simp: bind_panic_def)

lemma is_string_iff: "is_string v \<longleftrightarrow> (\<exists>s. v = GString s)"
  by (cases v) auto
lemma is_int_iff: "is_int v \<longleftrightarrow> (\<exists>n. v = GInt n)"
  by (cases v) auto
lemma is_bool_iff: "is_bool v \<longleftrightarrow> (\<exists>b. v = GBool b)"
  by (cases v) auto

lemma assert_string_eq: "assert_string v = Inr s \<longleftrightarrow> v = GString s"
  by (cases v) auto
lemma assert_int_eq: "assert_int v = Inr n \<longleftrightarrow> v = GInt n"
  by (cases v) auto
lemma assert_bool_eq: "assert_bool v = Inr b \<longleftrightarrow> v = GBool b"
  by (cases v) auto
lemma assert_list_eq: "assert_list v = Inr vs \<longleftrightarrow> v = GList vs"
  by (cases v) auto
lemma assert_map_eq: "assert_map v = Inr m \<longleftrightarrow> v = GMap m"
  by (cases v) auto

lemma diff_disk_settings_well_typed_iff:
  "diff_disk_settings_well_typed v \<longleftrightarrow>
     (\<exists>vs d. v = GList vs \<and> expand_diff_disk_settings vs = Inr d)"
proof (cases v rule: diff_disk_settings_well_typed.cases)
  case (2 m vs)
  then show ?thesis
    by (cases "map_index m ''option''")
       (simp_all add: expand_diff_disk_settings_def bind_panic_def)
qed (simp_all add: expand_diff_disk_settings_def bind_panic_def)

lemma expand_fields:
  assumes "map_index raw ''caching'' = GString c"
    and "map_index raw ''storage_account_type'' = GString sat"
    and "map_index raw ''write_accelerator_enabled'' = GBool w"
    and "map_index raw ''disk_size_gb'' = GInt sz"
    and "map_index raw ''diff_disk_settings'' = GList dl"
    and "expand_diff_disk_settings dl = Inr dd"
    and "map_index raw ''disk_encryption_set_id'' = GString e"
    and "map_index raw ''name'' = GString n"
  shows "ExpandVirtualMachineOSDisk (GMap raw # rest) osType =
     Inr \<lparr>OsType = osType,
          Name = (if n \<noteq> [] then Some n else None),
          Caching = c,
          WriteAcceleratorEnabled = Some w,
          DiffDiskSettings = dd,
          CreateOption = DiskCreateOptionTypesFromImage,
          DiskSizeGB = (if sz > 0 then Some (word_of_int sz) else None),
          ManagedDisk = Some \<lparr>StorageAccountType = sat,
            DiskEncryptionSet = (if e \<noteq> [] then Some \<lparr>ID = Some e\<rparr> else None)\<rparr>\<rparr>"
  by (simp add: ExpandVirtualMachineOSDisk_def bind_panic_def assms)

lemma well_typed_fields:
  assumes "os_disk_bag_well_typed input"
  obtains raw rest c sat w sz dl dd e n where
    "input = GMap raw # rest"
    "map_index raw ''caching'' = GString c"
    "map_index raw ''storage_account_type'' = GString sat"
    "map_index raw ''write_accelerator_enabled'' = GBool w"
    "map_index raw ''disk_size_gb'' = GInt sz"
    "map_index raw ''diff_disk_settings'' = GList dl"
    "expand_diff_disk_settings dl = Inr dd"
    "map_index raw ''disk_encryption_set_id'' = GString e"
    "map_index raw ''name'' = GString n"
proof -
  from assms obtain raw rest where input: "input = GMap raw # rest"
    by (cases input rule: os_disk_bag_well_typed.cases) auto
  from assms input obtain c sat w sz dv e n where f:
    "map_index raw ''caching'' = GString c"
    "map_index raw ''storage_account_type'' = GString sat"
    "map_index raw ''write_accelerator_enabled'' = GBool w"
    "map_index raw ''disk_size_gb'' = GInt sz"
    "diff_disk_settings_well_typed dv" "map_index raw ''diff_disk_settings'' = dv"
    "map_index raw ''disk_encryption_set_id'' = GString e"
    "map_index raw ''name'' = GString n"
    by (auto simp: is_string_iff is_int_iff is_bool_iff)
  from f(5) obtain dl dd where "dv = GList dl" "expand_diff_disk_settings dl = Inr dd"
    by (auto simp: diff_disk_settings_well_typed_iff)
  with input f that show ?thesis by blast
qed

lemma expand_Inr_well_typed:
  assumes "ExpandVirtualMachineOSDisk input osType = Inr disk"
  shows "os_disk_bag_well_typed input"
proof -
  from assms obtain raw rest where input: "input = GMap raw # rest"
    by (cases input rule: os_disk_bag_well_typed.cases)
       (auto simp: ExpandVirtualMachineOSDisk_def bind_panic_def)
  from assms show ?thesis
    unfolding ExpandVirtualMachineOSDisk_def input
    by (auto simp: bind_panic_Inr assert_string_eq assert_int_eq assert_bool_eq assert_list_eq
        diff_disk_settings_well_typed_iff)
qed

lemma map_index_Some: "map_index raw k = v \<Longrightarrow> v \<noteq> GNil \<Longrightarrow> raw k = Some v"
  by (auto simp: map_index_def split: option.splits)

lemma sint_disk_size:
  assumes "0 < sz" "sz \<le> 1023"
  shows "sint (word_of_int sz :: 32 word) = sz" "(word_of_int sz :: 32 word) \<noteq> 0"
proof -
  show s: "sint (word_of_int sz :: 32 word) = sz"
    using assms by (simp add: int_word_sint)
  show "(word_of_int sz :: 32 word) \<noteq> 0"
  proof
    assume "(word_of_int sz :: 32 word) = 0"
    then have "sint (word_of_int sz :: 32 word) = 0" by simp
    with s assms show False by simp
  qed
qed

lemma diff_disk_settings_valid_cases:
  assumes "diff_disk_settings_valid dv"
  obtains "dv = GList []"
  | opt where "dv = GList [GMap [''option'' \<mapsto> GString opt]]"
proof (cases dv rule: diff_disk_settings_valid.cases)
  case 1
  then show ?thesis using that by simp
next
  case (2 m)
  with assms obtain opt where o: "map_index m ''option'' = GString opt" and d: "dom m = {''option''}"
    by (auto simp: is_string_iff)
  have "m = [''option'' \<mapsto> GString opt]"
  proof
    fix k
    show "m k = [''option'' \<mapsto> GString opt] k"
    proof (cases "k = ''option''")
      case True
      then show ?thesis using map_index_Some[OF o] by simp
    next
      case False
      then have "k \<notin> dom m" using d by simp
      then show ?thesis using False by (simp add: domIff)
    qed
  qed
  with 2 that show ?thesis by simp
qed (use assms in simp_all)

lemma restricted_bag:
  assumes "raw ''caching'' = Some a1" "raw ''disk_size_gb'' = Some a2"
    "raw ''diff_disk_settings'' = Some a3" "raw ''disk_encryption_set_id'' = Some a4"
    "raw ''name'' = Some a5" "raw ''storage_account_type'' = Some a6"
    "raw ''write_accelerator_enabled'' = Some a7"
  shows "[''caching'' \<mapsto> a1, ''disk_size_gb'' \<mapsto> a2, ''diff_disk_settings'' \<mapsto> a3,
          ''disk_encryption_set_id'' \<mapsto> a4, ''name'' \<mapsto> a5, ''storage_account_type'' \<mapsto> a6,
          ''write_accelerator_enabled'' \<mapsto> a7] = raw |` os_disk_schema_keys"
proof
  fix k
  show "[''caching'' \<mapsto> a1, ''disk_size_gb'' \<mapsto> a2, ''diff_disk_settings'' \<mapsto> a3,
          ''disk_encryption_set_id'' \<mapsto> a4, ''name'' \<mapsto> a5, ''storage_account_type'' \<mapsto> a6,
          ''write_accelerator_enabled'' \<mapsto> a7] k = (raw |` os_disk_schema_keys) k"
    using assms by (simp add: restrict_map_def os_disk_schema_keys_def)
qed

lemma flattened_length: "length (FlattenVirtualMachineOSDisk (Some disk)) = 1"
  by (simp add: FlattenVirtualMachineOSDisk_def Let_def)

lemma flattened_fields:
  "flattened_field (FlattenVirtualMachineOSDisk (Some disk)) ''caching'' = Some (GString (Caching disk))"
  "flattened_field (FlattenVirtualMachineOSDisk (Some disk)) ''disk_size_gb'' =
     Some (GInt (case DiskSizeGB disk of None \<Rightarrow> 0 | Some sz \<Rightarrow> if sz \<noteq> 0 then sint sz else 0))"
  "flattened_field (FlattenVirtualMachineOSDisk (Some disk)) ''diff_disk_settings'' =
     Some (GList (case DiffDiskSettings disk of None \<Rightarrow> []
                  | Some dds \<Rightarrow> [GMap [''option'' \<mapsto> GString (Option dds)]]))"
  "flattened_field (FlattenVirtualMachineOSDisk (Some disk)) ''disk_encryption_set_id'' =
     Some (GString (case ManagedDisk disk of None \<Rightarrow> []
                    | Some md \<Rightarrow> (case DiskEncryptionSet md of None \<Rightarrow> []
                        | Some des \<Rightarrow> (case ID des of None \<Rightarrow> [] | Some i \<Rightarrow> i))))"
  "flattened_field (FlattenVirtualMachineOSDisk (Some disk)) ''name'' =
     Some (GString (case Name disk of None \<Rightarrow> [] | Some n \<Rightarrow> n))"
  "flattened_field (FlattenVirtualMachineOSDisk (Some disk)) ''storage_account_type'' =
     Some (GString (case ManagedDisk disk of None \<Rightarrow> [] | Some md \<Rightarrow> StorageAccountType md))"
  "flattened_field (FlattenVirtualMachineOSDisk (Some disk)) ''write_accelerator_enabled'' =
     Some (GBool (case WriteAcceleratorEnabled disk of None \<Rightarrow> False | Some b \<Rightarrow> b))"
  by (simp_all add: FlattenVirtualMachineOSDisk_def Let_def)

lemma expand_ids_loop_strings:
  "expand_ids_loop (map GString ids) out = Inr (out @ map (\<lambda>s. \<lparr>NetworkInterfaceReference.ID = Some s\<rparr>) ids)"
  by (induction ids arbitrary: out) (simp_all add: bind_panic_def)

lemma flatten_ids_loop_eq:
  "flatten_ids_loop refs out = out @ map GString (List.map_filter NetworkInterfaceReference.ID refs)"
  by (induction refs arbitrary: out) (simp_all split: option.splits)

lemma map_filter_ID_Some:
  "List.map_filter NetworkInterfaceReference.ID (map (\<lambda>s. \<lparr>NetworkInterfaceReference.ID = Some s\<rparr>) ids) = ids"
  by (induction ids) simp_all

lemma expand_ids_loop_Inr_iff:
  "(\<exists>refs. expand_ids_loop input out = Inr refs) \<longleftrightarrow> list_all is_string input"
proof (induction input arbitrary: out)
  case Nil
  then show ?case by simp
next
  case (Cons v vs)
  then show ?case by (cases v) (simp_all add: bind_panic_def)
qed

section \<open>The properties of the specification\<close>

text \<open>
  C1. For every valid OS-disk block, \<^verbatim>\<open>FlattenVirtualMachineOSDisk\<close> of
  \<^verbatim>\<open>ExpandVirtualMachineOSDisk\<close> reproduces the field values of the block: expanding
  returns a payload, and flattening it gives the one-element list whose map is the block's map
  on the seven keys of the schema. Fields left unset hold their zero values in the block
  (\<^verbatim>\<open>""\<close>, \<^verbatim>\<open>0\<close>, the empty list) and come back as those. Valid is what the schema
  admits: values of the declared types, \<^verbatim>\<open>disk_size_gb\<close> between 0 and 1023, at most one
  \<^verbatim>\<open>diff_disk_settings\<close> block.
\<close>

theorem flatten_expand_roundtrip:
  assumes "os_disk_bag_valid input"
  shows "\<exists>raw disk. input = [GMap raw] \<and>
           ExpandVirtualMachineOSDisk input osType = Inr disk \<and>
           FlattenVirtualMachineOSDisk (Some disk) = [GMap (raw |` os_disk_schema_keys)]"
proof -
  from assms obtain raw where input: "input = [GMap raw]"
    by (cases input rule: os_disk_bag_valid.cases) auto
  from assms input obtain c sat w dv e n where f:
    "map_index raw ''caching'' = GString c"
    "map_index raw ''storage_account_type'' = GString sat"
    "map_index raw ''write_accelerator_enabled'' = GBool w"
    "int_between 0 1023 (map_index raw ''disk_size_gb'')"
    "diff_disk_settings_valid dv" "map_index raw ''diff_disk_settings'' = dv"
    "map_index raw ''disk_encryption_set_id'' = GString e"
    "map_index raw ''name'' = GString n"
    by (auto simp: is_string_iff is_bool_iff)
  from f(4) obtain sz where fsz: "map_index raw ''disk_size_gb'' = GInt sz" and range: "0 \<le> sz" "sz \<le> 1023"
    by (cases "map_index raw ''disk_size_gb''") auto
  from f(5) obtain dl dd where
    dl: "dv = GList dl" and ex: "expand_diff_disk_settings dl = Inr dd" and
    inv: "(case dd of None \<Rightarrow> [] | Some dds \<Rightarrow> [GMap [''option'' \<mapsto> GString (Option dds)]]) = dl"
  proof (cases rule: diff_disk_settings_valid_cases)
    case 1
    then show ?thesis using that[of "[]" None] by (simp add: expand_diff_disk_settings_def)
  next
    case (2 opt)
    then show ?thesis
      using that[of "[GMap [''option'' \<mapsto> GString opt]]" "Some \<lparr>Option = opt\<rparr>"]
      by (simp add: expand_diff_disk_settings_def bind_panic_def map_index_def)
  qed
  have r: "raw ''caching'' = Some (GString c)"
    "raw ''disk_size_gb'' = Some (GInt sz)"
    "raw ''diff_disk_settings'' = Some (GList dl)"
    "raw ''disk_encryption_set_id'' = Some (GString e)"
    "raw ''name'' = Some (GString n)"
    "raw ''storage_account_type'' = Some (GString sat)"
    "raw ''write_accelerator_enabled'' = Some (GBool w)"
    using f fsz dl by (simp_all add: map_index_Some)
  let ?disk = "\<lparr>OsType = osType,
          Name = (if n \<noteq> [] then Some n else None),
          Caching = c,
          WriteAcceleratorEnabled = Some w,
          DiffDiskSettings = dd,
          CreateOption = DiskCreateOptionTypesFromImage,
          DiskSizeGB = (if sz > 0 then Some (word_of_int sz) else None),
          ManagedDisk = Some \<lparr>StorageAccountType = sat,
            DiskEncryptionSet = (if e \<noteq> [] then Some \<lparr>ID = Some e\<rparr> else None)\<rparr>\<rparr>"
  have expand: "ExpandVirtualMachineOSDisk input osType = Inr ?disk"
    unfolding input using f(1,2,3) fsz f(6)[unfolded dl] ex f(7,8) by (rule expand_fields)
  have size: "(case DiskSizeGB ?disk of None \<Rightarrow> 0 | Some s \<Rightarrow> if s \<noteq> 0 then sint s else 0) = sz"
    using range sint_disk_size[of sz] by (cases "sz = 0") simp_all
  have "FlattenVirtualMachineOSDisk (Some ?disk) =
      [GMap [''caching'' \<mapsto> GString c, ''disk_size_gb'' \<mapsto> GInt sz,
             ''diff_disk_settings'' \<mapsto> GList dl, ''disk_encryption_set_id'' \<mapsto> GString e,
             ''name'' \<mapsto> GString n, ''storage_account_type'' \<mapsto> GString sat,
             ''write_accelerator_enabled'' \<mapsto> GBool w]]"
    unfolding FlattenVirtualMachineOSDisk_def Let_def option.case size
    using inv by simp
  also have "\<dots> = [GMap (raw |` os_disk_schema_keys)]"
    using restricted_bag[OF r] by simp
  finally show ?thesis using input expand by blast
qed

theorem flatten_expand_roundtrip_witness:
  "os_disk_bag_valid
     [GMap [''caching'' \<mapsto> GString ''ReadWrite'', ''disk_size_gb'' \<mapsto> GInt 30,
            ''diff_disk_settings'' \<mapsto> GList [GMap [''option'' \<mapsto> GString ''Local'']],
            ''disk_encryption_set_id'' \<mapsto> GString [], ''name'' \<mapsto> GString ''osdisk'',
            ''storage_account_type'' \<mapsto> GString ''Standard_LRS'',
            ''write_accelerator_enabled'' \<mapsto> GBool False]] \<and>
   (\<exists>disk.
      ExpandVirtualMachineOSDisk
        [GMap [''caching'' \<mapsto> GString ''ReadWrite'', ''disk_size_gb'' \<mapsto> GInt 30,
            ''diff_disk_settings'' \<mapsto> GList [GMap [''option'' \<mapsto> GString ''Local'']],
            ''disk_encryption_set_id'' \<mapsto> GString [], ''name'' \<mapsto> GString ''osdisk'',
            ''storage_account_type'' \<mapsto> GString ''Standard_LRS'',
            ''write_accelerator_enabled'' \<mapsto> GBool False]] ''Linux'' = Inr disk \<and>
      flattened_field (FlattenVirtualMachineOSDisk (Some disk)) ''disk_size_gb'' = Some (GInt 30) \<and>
      flattened_field (FlattenVirtualMachineOSDisk (Some disk)) ''name'' = Some (GString ''osdisk'') \<and>
      flattened_field (FlattenVirtualMachineOSDisk (Some disk)) ''diff_disk_settings'' =
        Some (GList [GMap [''option'' \<mapsto> GString ''Local'']]))"
proof -
  let ?raw = "[''caching'' \<mapsto> GString ''ReadWrite'', ''disk_size_gb'' \<mapsto> GInt 30,
            ''diff_disk_settings'' \<mapsto> GList [GMap [''option'' \<mapsto> GString ''Local'']],
            ''disk_encryption_set_id'' \<mapsto> GString [], ''name'' \<mapsto> GString ''osdisk'',
            ''storage_account_type'' \<mapsto> GString ''Standard_LRS'',
            ''write_accelerator_enabled'' \<mapsto> GBool False]"
  have v: "os_disk_bag_valid [GMap ?raw]"
    by (simp add: map_index_def)
  from flatten_expand_roundtrip [OF v, of "''Linux''"] obtain disk where
    "ExpandVirtualMachineOSDisk [GMap ?raw] ''Linux'' = Inr disk"
    "FlattenVirtualMachineOSDisk (Some disk) = [GMap (?raw |` os_disk_schema_keys)]"
    by auto
  then show ?thesis using v
    by (auto simp: restrict_map_def os_disk_schema_keys_def)
qed

text \<open>
  The nil pointer is answered by the guard of lines 206 to 208 with the empty list, not with
  a list of one element.
\<close>

theorem flatten_nil_is_empty: "length (FlattenVirtualMachineOSDisk None) \<noteq> 1"
  by (simp add: FlattenVirtualMachineOSDisk_def)

text \<open>
  C2 (as amended). \<^verbatim>\<open>FlattenVirtualMachineOSDisk\<close> returns the empty list for a nil
  \<^verbatim>\<open>OSDisk\<close> pointer; for every non-nil one it returns a list of exactly one element, in
  which every absent pointer field is replaced by the zero value of its type.
\<close>

theorem flatten_one_element_unless_nil:
  "FlattenVirtualMachineOSDisk None = [] \<and>
   length (FlattenVirtualMachineOSDisk (Some disk)) = 1 \<and>
   (DiffDiskSettings disk = None \<longrightarrow>
      flattened_field (FlattenVirtualMachineOSDisk (Some disk)) ''diff_disk_settings'' = Some (GList [])) \<and>
   (DiskSizeGB disk = None \<longrightarrow>
      flattened_field (FlattenVirtualMachineOSDisk (Some disk)) ''disk_size_gb'' = Some (GInt 0)) \<and>
   (Name disk = None \<longrightarrow>
      flattened_field (FlattenVirtualMachineOSDisk (Some disk)) ''name'' = Some (GString [])) \<and>
   (ManagedDisk disk = None \<longrightarrow>
      flattened_field (FlattenVirtualMachineOSDisk (Some disk)) ''storage_account_type'' = Some (GString []) \<and>
      flattened_field (FlattenVirtualMachineOSDisk (Some disk)) ''disk_encryption_set_id'' = Some (GString [])) \<and>
   (ManagedDisk disk = Some md \<and> DiskEncryptionSet md = None \<longrightarrow>
      flattened_field (FlattenVirtualMachineOSDisk (Some disk)) ''disk_encryption_set_id'' = Some (GString [])) \<and>
   (ManagedDisk disk = Some md \<and> DiskEncryptionSet md = Some des \<and> ID des = None \<longrightarrow>
      flattened_field (FlattenVirtualMachineOSDisk (Some disk)) ''disk_encryption_set_id'' = Some (GString [])) \<and>
   (WriteAcceleratorEnabled disk = None \<longrightarrow>
      flattened_field (FlattenVirtualMachineOSDisk (Some disk)) ''write_accelerator_enabled'' = Some (GBool False))"
proof -
  have "FlattenVirtualMachineOSDisk None = []"
    by (simp add: FlattenVirtualMachineOSDisk_def)
  then show ?thesis
    by (simp add: flattened_length flattened_fields)
qed

theorem flatten_one_element_unless_nil_witness:
  "FlattenVirtualMachineOSDisk (Some \<lparr>OsType = [], Name = None, Caching = ''None'',
       WriteAcceleratorEnabled = None, DiffDiskSettings = None, CreateOption = [],
       DiskSizeGB = None, ManagedDisk = None\<rparr>) =
     [GMap [''caching'' \<mapsto> GString ''None'', ''disk_size_gb'' \<mapsto> GInt 0,
            ''diff_disk_settings'' \<mapsto> GList [], ''disk_encryption_set_id'' \<mapsto> GString [],
            ''name'' \<mapsto> GString [], ''storage_account_type'' \<mapsto> GString [],
            ''write_accelerator_enabled'' \<mapsto> GBool False]] \<and>
   flattened_field (FlattenVirtualMachineOSDisk (Some \<lparr>OsType = [], Name = None, Caching = [],
       WriteAcceleratorEnabled = None, DiffDiskSettings = None, CreateOption = [],
       DiskSizeGB = None,
       ManagedDisk = Some \<lparr>StorageAccountType = ''Premium_LRS'', DiskEncryptionSet = None\<rparr>\<rparr>))
     ''disk_encryption_set_id'' = Some (GString []) \<and>
   flattened_field (FlattenVirtualMachineOSDisk (Some \<lparr>OsType = [], Name = None, Caching = [],
       WriteAcceleratorEnabled = None, DiffDiskSettings = None, CreateOption = [],
       DiskSizeGB = None,
       ManagedDisk = Some \<lparr>StorageAccountType = ''Premium_LRS'',
         DiskEncryptionSet = Some \<lparr>ID = None\<rparr>\<rparr>\<rparr>))
     ''disk_encryption_set_id'' = Some (GString [])"
proof -
  let ?d0 = "\<lparr>OsType = [], Name = None, Caching = ''None'',
       WriteAcceleratorEnabled = None, DiffDiskSettings = None, CreateOption = [],
       DiskSizeGB = None, ManagedDisk = None\<rparr>"
  let ?md1 = "\<lparr>StorageAccountType = ''Premium_LRS'', DiskEncryptionSet = None\<rparr>"
  let ?des = "\<lparr>ID = None\<rparr>"
  let ?md2 = "\<lparr>StorageAccountType = ''Premium_LRS'', DiskEncryptionSet = Some ?des\<rparr>"
  let ?d1 = "\<lparr>OsType = [], Name = None, Caching = [],
       WriteAcceleratorEnabled = None, DiffDiskSettings = None, CreateOption = [],
       DiskSizeGB = None, ManagedDisk = Some ?md1\<rparr>"
  let ?d2 = "\<lparr>OsType = [], Name = None, Caching = [],
       WriteAcceleratorEnabled = None, DiffDiskSettings = None, CreateOption = [],
       DiskSizeGB = None, ManagedDisk = Some ?md2\<rparr>"
  have a: "FlattenVirtualMachineOSDisk (Some ?d0) =
     [GMap [''caching'' \<mapsto> GString ''None'', ''disk_size_gb'' \<mapsto> GInt 0,
            ''diff_disk_settings'' \<mapsto> GList [], ''disk_encryption_set_id'' \<mapsto> GString [],
            ''name'' \<mapsto> GString [], ''storage_account_type'' \<mapsto> GString [],
            ''write_accelerator_enabled'' \<mapsto> GBool False]]"
    using flatten_one_element_unless_nil [of ?d0]
    by (simp add: FlattenVirtualMachineOSDisk_def)
  have b: "flattened_field (FlattenVirtualMachineOSDisk (Some ?d1)) ''disk_encryption_set_id'' =
      Some (GString [])"
    using flatten_one_element_unless_nil [of ?d1 ?md1] by simp
  have c: "flattened_field (FlattenVirtualMachineOSDisk (Some ?d2)) ''disk_encryption_set_id'' =
      Some (GString [])"
    using flatten_one_element_unless_nil [of ?d2 ?md2 ?des] by simp
  from a b c show ?thesis by simp
qed

text \<open>
  C3. If \<^verbatim>\<open>disk_size_gb\<close> of a block is 0, \<^verbatim>\<open>ExpandVirtualMachineOSDisk\<close> returns a
  payload whose \<^verbatim>\<open>DiskSizeGB\<close> is nil, and flattening that payload, as any payload with a
  nil \<^verbatim>\<open>DiskSizeGB\<close>, gives \<^verbatim>\<open>disk_size_gb\<close> equal to 0. The block is well typed, which
  is what the expansion needs to return at all.
\<close>

theorem disk_size_zero_stays_unset:
  assumes "os_disk_bag_well_typed (GMap raw # rest)"
    and "map_index raw ''disk_size_gb'' = GInt 0"
  shows "(\<exists>disk. ExpandVirtualMachineOSDisk (GMap raw # rest) osType = Inr disk \<and>
             DiskSizeGB disk = None \<and>
             flattened_field (FlattenVirtualMachineOSDisk (Some disk)) ''disk_size_gb'' = Some (GInt 0)) \<and>
         (\<forall>payload. DiskSizeGB payload = None \<longrightarrow>
             flattened_field (FlattenVirtualMachineOSDisk (Some payload)) ''disk_size_gb'' = Some (GInt 0))"
proof
  from assms(1) obtain raw' rest' c sat w sz dl dd e n where f:
    "GMap raw # rest = GMap raw' # rest'"
    "map_index raw' ''caching'' = GString c"
    "map_index raw' ''storage_account_type'' = GString sat"
    "map_index raw' ''write_accelerator_enabled'' = GBool w"
    "map_index raw' ''disk_size_gb'' = GInt sz"
    "map_index raw' ''diff_disk_settings'' = GList dl"
    "expand_diff_disk_settings dl = Inr dd"
    "map_index raw' ''disk_encryption_set_id'' = GString e"
    "map_index raw' ''name'' = GString n"
    by (rule well_typed_fields)
  from f(1) have eq: "raw' = raw" "rest' = rest" by simp_all
  from f(5) assms(2) have sz: "sz = 0" by (simp add: eq)
  show "\<exists>disk. ExpandVirtualMachineOSDisk (GMap raw # rest) osType = Inr disk \<and>
             DiskSizeGB disk = None \<and>
             flattened_field (FlattenVirtualMachineOSDisk (Some disk)) ''disk_size_gb'' = Some (GInt 0)"
    using expand_fields[OF f(2-9), of rest osType]
    by (simp add: eq sz flattened_fields)
next
  show "\<forall>payload. DiskSizeGB payload = None \<longrightarrow>
             flattened_field (FlattenVirtualMachineOSDisk (Some payload)) ''disk_size_gb'' = Some (GInt 0)"
    by (simp add: flattened_fields)
qed

theorem disk_size_zero_stays_unset_witness:
  "os_disk_bag_well_typed
     [GMap [''caching'' \<mapsto> GString ''ReadWrite'', ''disk_size_gb'' \<mapsto> GInt 0,
            ''diff_disk_settings'' \<mapsto> GList [], ''disk_encryption_set_id'' \<mapsto> GString [],
            ''name'' \<mapsto> GString [], ''storage_account_type'' \<mapsto> GString ''Premium_LRS'',
            ''write_accelerator_enabled'' \<mapsto> GBool True]] \<and>
   (\<exists>disk.
      ExpandVirtualMachineOSDisk
        [GMap [''caching'' \<mapsto> GString ''ReadWrite'', ''disk_size_gb'' \<mapsto> GInt 0,
            ''diff_disk_settings'' \<mapsto> GList [], ''disk_encryption_set_id'' \<mapsto> GString [],
            ''name'' \<mapsto> GString [], ''storage_account_type'' \<mapsto> GString ''Premium_LRS'',
            ''write_accelerator_enabled'' \<mapsto> GBool True]] ''Windows'' = Inr disk \<and>
      DiskSizeGB disk = None \<and>
      flattened_field (FlattenVirtualMachineOSDisk (Some disk)) ''disk_size_gb'' = Some (GInt 0))"
proof -
  let ?raw = "[''caching'' \<mapsto> GString ''ReadWrite'', ''disk_size_gb'' \<mapsto> GInt 0,
            ''diff_disk_settings'' \<mapsto> GList [], ''disk_encryption_set_id'' \<mapsto> GString [],
            ''name'' \<mapsto> GString [], ''storage_account_type'' \<mapsto> GString ''Premium_LRS'',
            ''write_accelerator_enabled'' \<mapsto> GBool True]"
  have w: "os_disk_bag_well_typed [GMap ?raw]"
    by (simp add: map_index_def)
  have z: "map_index ?raw ''disk_size_gb'' = GInt 0"
    by (simp add: map_index_def)
  from disk_size_zero_stays_unset [where osType = "''Windows''", OF w z] w
  show ?thesis by blast
qed

text \<open>
  C4. An identifier that \<^verbatim>\<open>ParseAzureResourceID\<close> accepts and that has no segment under
  the key \<^verbatim>\<open>virtualMachines\<close> makes \<^verbatim>\<open>ParseVirtualMachineID\<close> return an error, the
  one of \<^verbatim>\<open>PopSegment\<close>, and no \<^verbatim>\<open>VirtualMachineID\<close>.
\<close>

theorem parse_without_virtualMachines_segment:
  assumes "ParseAzureResourceID input = Inr rid"
    and "''virtualMachines'' \<notin> fst ` set (Path rid)"
  shows "ParseVirtualMachineID input = Inl (MissingSegment ''virtualMachines'')"
proof -
  from assms(2) have "map_of (Path rid) ''virtualMachines'' = None"
    by (simp add: map_of_eq_None_iff)
  then have "PopSegment rid ''virtualMachines'' = Inl (MissingSegment ''virtualMachines'')"
    by (simp add: PopSegment_def)
  with assms(1) show ?thesis
    by (simp add: ParseVirtualMachineID_def)
qed

theorem parse_without_virtualMachines_segment_witness:
  "ParseAzureResourceID ''/subscriptions/s1/resourceGroups/rg1/disks/d1'' =
     Inr \<lparr>ResourceID.ResourceGroup = ''rg1'',
          Path = [(''subscriptions'', ''s1''), (''resourceGroups'', ''rg1''), (''disks'', ''d1'')]\<rparr> \<and>
   ParseVirtualMachineID ''/subscriptions/s1/resourceGroups/rg1/disks/d1'' =
     Inl (MissingSegment ''virtualMachines'')"
proof -
  have p: "ParseAzureResourceID ''/subscriptions/s1/resourceGroups/rg1/disks/d1'' =
     Inr \<lparr>ResourceID.ResourceGroup = ''rg1'',
          Path = [(''subscriptions'', ''s1''), (''resourceGroups'', ''rg1''), (''disks'', ''d1'')]\<rparr>"
    by (simp add: ParseAzureResourceID_def path_segments_def)
  have n: "''virtualMachines'' \<notin> fst ` set (Path \<lparr>ResourceID.ResourceGroup = ''rg1'',
          Path = [(''subscriptions'', ''s1''), (''resourceGroups'', ''rg1''), (''disks'', ''d1'')]\<rparr>)"
    by simp
  from parse_without_virtualMachines_segment [OF p n] p show ?thesis by simp
qed

text \<open>
  C5. An identifier with an empty path segment makes \<^verbatim>\<open>ParseVirtualMachineID\<close> return an
  error, so no \<^verbatim>\<open>VirtualMachineID\<close> is parsed from it: \<^verbatim>\<open>ValidateNoEmptySegments\<close>
  fails on it, and where the two earlier steps succeed the error returned is that check's.
\<close>

theorem parse_rejects_empty_segment:
  assumes "has_empty_segment input"
  shows "(\<exists>err. ParseVirtualMachineID input = Inl err) \<and>
         (\<forall>vm. ParseVirtualMachineID input \<noteq> Inr vm) \<and>
         (\<forall>rid. ValidateNoEmptySegments rid input = Some (EmptySegment input)) \<and>
         (\<forall>rid name rid'. ParseAzureResourceID input = Inr rid \<and>
             PopSegment rid ''virtualMachines'' = Inr (name, rid') \<longrightarrow>
             ParseVirtualMachineID input = Inl (EmptySegment input))"
proof -
  have v: "ValidateNoEmptySegments rid input = Some (EmptySegment input)" for rid
    using assms by (simp add: ValidateNoEmptySegments_def)
  have e: "\<exists>err. ParseVirtualMachineID input = Inl err"
    by (simp add: ParseVirtualMachineID_def v split: sum.splits prod.splits)
  then have "\<forall>vm. ParseVirtualMachineID input \<noteq> Inr vm" by auto
  moreover have "\<forall>rid name rid'. ParseAzureResourceID input = Inr rid \<and>
             PopSegment rid ''virtualMachines'' = Inr (name, rid') \<longrightarrow>
             ParseVirtualMachineID input = Inl (EmptySegment input)"
    by (simp add: ParseVirtualMachineID_def v)
  ultimately show ?thesis using e v by blast
qed

theorem parse_rejects_empty_segment_witness:
  "has_empty_segment ''/resourceGroups//virtualMachines/vm1'' \<and>
   ParseVirtualMachineID ''/resourceGroups//virtualMachines/vm1'' =
     Inl (EmptySegment ''/resourceGroups//virtualMachines/vm1'')"
proof -
  have h: "has_empty_segment ''/resourceGroups//virtualMachines/vm1''"
    by (simp add: has_empty_segment_def path_segments_def)
  have p: "ParseAzureResourceID ''/resourceGroups//virtualMachines/vm1'' =
      Inr \<lparr>ResourceID.ResourceGroup = [],
           Path = [(''resourceGroups'', []), (''virtualMachines'', ''vm1'')]\<rparr>"
    by (simp add: ParseAzureResourceID_def path_segments_def)
  have s: "PopSegment \<lparr>ResourceID.ResourceGroup = [],
           Path = [(''resourceGroups'', []), (''virtualMachines'', ''vm1'')]\<rparr> ''virtualMachines'' =
      Inr (''vm1'', \<lparr>ResourceID.ResourceGroup = [], Path = [(''resourceGroups'', [])]\<rparr>)"
    by (simp add: PopSegment_def)
  from parse_rejects_empty_segment [OF h] p s h show ?thesis by blast
qed

text \<open>
  C6. For every well-typed block: when its \<^verbatim>\<open>diff_disk_settings\<close> list is not empty, the
  expanded payload has a non-nil \<^verbatim>\<open>DiffDiskSettings\<close> carrying the option of the list's
  first element, and flattening the payload gives a \<^verbatim>\<open>diff_disk_settings\<close> list of one
  element with that option; when the list is empty, \<^verbatim>\<open>DiffDiskSettings\<close> is nil and the
  flattened list is empty.
\<close>

theorem diff_disk_settings_expand_flatten:
  assumes "os_disk_bag_well_typed (GMap raw # rest)"
    and "map_index raw ''diff_disk_settings'' = GList dl"
  shows "\<exists>disk. ExpandVirtualMachineOSDisk (GMap raw # rest) osType = Inr disk \<and>
           (dl = [] \<longrightarrow>
              DiffDiskSettings disk = None \<and>
              flattened_field (FlattenVirtualMachineOSDisk (Some disk)) ''diff_disk_settings'' =
                Some (GList [])) \<and>
           (dl \<noteq> [] \<longrightarrow>
              (\<exists>diffDiskRaw opt. hd dl = GMap diffDiskRaw \<and>
                 map_index diffDiskRaw ''option'' = GString opt \<and>
                 DiffDiskSettings disk = Some \<lparr>Option = opt\<rparr> \<and>
                 flattened_field (FlattenVirtualMachineOSDisk (Some disk)) ''diff_disk_settings'' =
                   Some (GList [GMap [''option'' \<mapsto> GString opt]])))"
proof -
  from assms(1) obtain raw' rest' c sat w sz dl' dd e n where f:
    "GMap raw # rest = GMap raw' # rest'"
    "map_index raw' ''caching'' = GString c"
    "map_index raw' ''storage_account_type'' = GString sat"
    "map_index raw' ''write_accelerator_enabled'' = GBool w"
    "map_index raw' ''disk_size_gb'' = GInt sz"
    "map_index raw' ''diff_disk_settings'' = GList dl'"
    "expand_diff_disk_settings dl' = Inr dd"
    "map_index raw' ''disk_encryption_set_id'' = GString e"
    "map_index raw' ''name'' = GString n"
    by (rule well_typed_fields)
  from f(1) have eq: "raw' = raw" "rest' = rest" by simp_all
  from f(6) assms(2) have dl: "dl' = dl" by (simp add: eq)
  have dd: "(dl = [] \<longrightarrow> dd = None) \<and>
            (dl \<noteq> [] \<longrightarrow> (\<exists>diffDiskRaw opt. hd dl = GMap diffDiskRaw \<and>
                 map_index diffDiskRaw ''option'' = GString opt \<and> dd = Some \<lparr>Option = opt\<rparr>))"
    using f(7) unfolding dl
    by (cases dl) (auto simp: expand_diff_disk_settings_def bind_panic_Inr assert_map_eq assert_string_eq)
  show ?thesis
    using expand_fields[OF f(2-9), of rest osType] dd
    by (auto simp add: eq flattened_fields)
qed

theorem diff_disk_settings_expand_flatten_witness:
  "(\<exists>disk.
      ExpandVirtualMachineOSDisk
        [GMap [''caching'' \<mapsto> GString ''ReadOnly'', ''disk_size_gb'' \<mapsto> GInt 64,
            ''diff_disk_settings'' \<mapsto> GList [GMap [''option'' \<mapsto> GString ''Local'']],
            ''disk_encryption_set_id'' \<mapsto> GString [], ''name'' \<mapsto> GString [],
            ''storage_account_type'' \<mapsto> GString ''Standard_LRS'',
            ''write_accelerator_enabled'' \<mapsto> GBool False]] ''Linux'' = Inr disk \<and>
      DiffDiskSettings disk = Some \<lparr>Option = ''Local''\<rparr> \<and>
      flattened_field (FlattenVirtualMachineOSDisk (Some disk)) ''diff_disk_settings'' =
        Some (GList [GMap [''option'' \<mapsto> GString ''Local'']])) \<and>
   (\<exists>disk.
      ExpandVirtualMachineOSDisk
        [GMap [''caching'' \<mapsto> GString ''ReadOnly'', ''disk_size_gb'' \<mapsto> GInt 64,
            ''diff_disk_settings'' \<mapsto> GList [],
            ''disk_encryption_set_id'' \<mapsto> GString [], ''name'' \<mapsto> GString [],
            ''storage_account_type'' \<mapsto> GString ''Standard_LRS'',
            ''write_accelerator_enabled'' \<mapsto> GBool False]] ''Linux'' = Inr disk \<and>
      DiffDiskSettings disk = None \<and>
      flattened_field (FlattenVirtualMachineOSDisk (Some disk)) ''diff_disk_settings'' =
        Some (GList []))"
proof
  let ?raw = "[''caching'' \<mapsto> GString ''ReadOnly'', ''disk_size_gb'' \<mapsto> GInt 64,
            ''diff_disk_settings'' \<mapsto> GList [GMap [''option'' \<mapsto> GString ''Local'']],
            ''disk_encryption_set_id'' \<mapsto> GString [], ''name'' \<mapsto> GString [],
            ''storage_account_type'' \<mapsto> GString ''Standard_LRS'',
            ''write_accelerator_enabled'' \<mapsto> GBool False]"
  have w: "os_disk_bag_well_typed [GMap ?raw]"
    by (simp add: map_index_def)
  have d: "map_index ?raw ''diff_disk_settings'' = GList [GMap [''option'' \<mapsto> GString ''Local'']]"
    by (simp add: map_index_def)
  from diff_disk_settings_expand_flatten [where osType = "''Linux''", OF w d]
  show "\<exists>disk. ExpandVirtualMachineOSDisk [GMap ?raw] ''Linux'' = Inr disk \<and>
      DiffDiskSettings disk = Some \<lparr>Option = ''Local''\<rparr> \<and>
      flattened_field (FlattenVirtualMachineOSDisk (Some disk)) ''diff_disk_settings'' =
        Some (GList [GMap [''option'' \<mapsto> GString ''Local'']])"
    by (auto simp: map_index_def)
next
  let ?raw = "[''caching'' \<mapsto> GString ''ReadOnly'', ''disk_size_gb'' \<mapsto> GInt 64,
            ''diff_disk_settings'' \<mapsto> GList [],
            ''disk_encryption_set_id'' \<mapsto> GString [], ''name'' \<mapsto> GString [],
            ''storage_account_type'' \<mapsto> GString ''Standard_LRS'',
            ''write_accelerator_enabled'' \<mapsto> GBool False]"
  have w: "os_disk_bag_well_typed [GMap ?raw]"
    by (simp add: map_index_def)
  have d: "map_index ?raw ''diff_disk_settings'' = GList []"
    by (simp add: map_index_def)
  from diff_disk_settings_expand_flatten [where osType = "''Linux''", OF w d]
  show "\<exists>disk. ExpandVirtualMachineOSDisk [GMap ?raw] ''Linux'' = Inr disk \<and>
      DiffDiskSettings disk = None \<and>
      flattened_field (FlattenVirtualMachineOSDisk (Some disk)) ''diff_disk_settings'' =
        Some (GList [])"
    by simp
qed

text \<open>
  C7. Flattening a payload whose \<^verbatim>\<open>WriteAcceleratorEnabled\<close> pointer is nil gives
  \<^verbatim>\<open>write_accelerator_enabled\<close> false; when the pointer is not nil, it gives the boolean
  pointed to.
\<close>

theorem flatten_write_accelerator_enabled:
  "(WriteAcceleratorEnabled disk = None \<longrightarrow>
      flattened_field (FlattenVirtualMachineOSDisk (Some disk)) ''write_accelerator_enabled'' = Some (GBool False)) \<and>
   (WriteAcceleratorEnabled disk = Some b \<longrightarrow>
      flattened_field (FlattenVirtualMachineOSDisk (Some disk)) ''write_accelerator_enabled'' = Some (GBool b))"
  by (simp add: flattened_fields)

theorem flatten_write_accelerator_enabled_witness:
  "flattened_field (FlattenVirtualMachineOSDisk (Some \<lparr>OsType = ''Linux'', Name = None,
       Caching = ''None'', WriteAcceleratorEnabled = None, DiffDiskSettings = None,
       CreateOption = ''FromImage'', DiskSizeGB = None, ManagedDisk = None\<rparr>))
     ''write_accelerator_enabled'' = Some (GBool False) \<and>
   flattened_field (FlattenVirtualMachineOSDisk (Some \<lparr>OsType = ''Linux'', Name = None,
       Caching = ''None'', WriteAcceleratorEnabled = Some True, DiffDiskSettings = None,
       CreateOption = ''FromImage'', DiskSizeGB = None, ManagedDisk = None\<rparr>))
     ''write_accelerator_enabled'' = Some (GBool True)"
  using flatten_write_accelerator_enabled [of "\<lparr>OsType = ''Linux'', Name = None,
       Caching = ''None'', WriteAcceleratorEnabled = None, DiffDiskSettings = None,
       CreateOption = ''FromImage'', DiskSizeGB = None, ManagedDisk = None\<rparr>"]
    flatten_write_accelerator_enabled [of "\<lparr>OsType = ''Linux'', Name = None,
       Caching = ''None'', WriteAcceleratorEnabled = Some True, DiffDiskSettings = None,
       CreateOption = ''FromImage'', DiskSizeGB = None, ManagedDisk = None\<rparr>" True]
  by simp

text \<open>
  C8. \<^verbatim>\<open>ValidateVirtualMachineID\<close> returns a pair of warnings and errors on every input.
  The warnings are always empty; the errors are non-empty exactly when the input is not a
  string or \<^verbatim>\<open>ParseVirtualMachineID\<close> fails on it; both lists are empty exactly when the
  input is a string that parses.
\<close>

theorem validate_virtual_machine_id:
  "fst (ValidateVirtualMachineID i k) = [] \<and>
   (snd (ValidateVirtualMachineID i k) \<noteq> [] \<longleftrightarrow>
      (\<forall>v. i \<noteq> GString v) \<or> (\<exists>v err. i = GString v \<and> ParseVirtualMachineID v = Inl err)) \<and>
   (ValidateVirtualMachineID i k = ([], []) \<longleftrightarrow>
      (\<exists>v vm. i = GString v \<and> ParseVirtualMachineID v = Inr vm))"
proof (cases i)
  case (GString v)
  then show ?thesis
    by (cases "ParseVirtualMachineID v") (simp_all add: ValidateVirtualMachineID_def)
qed (simp_all add: ValidateVirtualMachineID_def)

text \<open>
  \<^verbatim>\<open>input[0]\<close> on the empty list and \<^verbatim>\<open>raw["caching"].(string)\<close> on an int both
  panic.
\<close>

theorem expand_panics_outside_schema:
  "ExpandVirtualMachineOSDisk [] ''Linux'' = Inl IndexOutOfRange \<and>
   ExpandVirtualMachineOSDisk [GMap [''caching'' \<mapsto> GInt 1]] ''Linux'' = Inl InterfaceConversion"
  by (simp add: ExpandVirtualMachineOSDisk_def bind_panic_def map_index_def)

text \<open>
  C9 (as amended). \<^verbatim>\<open>ExpandVirtualMachineOSDisk\<close> returns a payload exactly on the
  inputs whose first element is a map with values of the schema's types under the seven keys,
  and \<^verbatim>\<open>expandVirtualMachineNetworkInterfaceIDs\<close> returns exactly on lists of strings; on
  every other input they panic. The flatten functions and the validator have no failing branch.
\<close>

theorem expand_returns_iff_well_typed:
  "((\<exists>disk. ExpandVirtualMachineOSDisk input osType = Inr disk) \<longleftrightarrow>
      os_disk_bag_well_typed input) \<and>
   ((\<exists>refs. expandVirtualMachineNetworkInterfaceIDs ids = Inr refs) \<longleftrightarrow>
      list_all is_string ids)"
proof
  show "(\<exists>disk. ExpandVirtualMachineOSDisk input osType = Inr disk) \<longleftrightarrow>
      os_disk_bag_well_typed input"
  proof
    assume "\<exists>disk. ExpandVirtualMachineOSDisk input osType = Inr disk"
    then show "os_disk_bag_well_typed input" by (auto dest: expand_Inr_well_typed)
  next
    assume "os_disk_bag_well_typed input"
    then show "\<exists>disk. ExpandVirtualMachineOSDisk input osType = Inr disk"
      by (elim well_typed_fields) (simp add: expand_fields)
  qed
next
  show "(\<exists>refs. expandVirtualMachineNetworkInterfaceIDs ids = Inr refs) \<longleftrightarrow>
      list_all is_string ids"
    unfolding expandVirtualMachineNetworkInterfaceIDs_def by (rule expand_ids_loop_Inr_iff)
qed

text \<open>
  C10. For every list of ID strings, flattening the expanded references gives the list back;
  flattening a nil list gives the empty list; and flattening any list of references keeps, in
  order, the IDs that are not nil and drops the references without one. The result is built
  by \<^verbatim>\<open>make\<close> or a literal on every path, so it is never the nil slice.
\<close>

theorem network_interface_ids_roundtrip:
  "(\<exists>refs. expandVirtualMachineNetworkInterfaceIDs (map GString ids) = Inr refs \<and>
            flattenVirtualMachineNetworkInterfaceIDs (Some refs) = map GString ids) \<and>
   flattenVirtualMachineNetworkInterfaceIDs None = [] \<and>
   flattenVirtualMachineNetworkInterfaceIDs (Some input) =
     map GString (List.map_filter NetworkInterfaceReference.ID input)"
  by (simp add: expandVirtualMachineNetworkInterfaceIDs_def flattenVirtualMachineNetworkInterfaceIDs_def
      expand_ids_loop_strings flatten_ids_loop_eq map_filter_ID_Some)

end
